theory Spec2Isabelle
  imports Complex_Main
begin

section \<open>Numeric values of the coplanar-waveguide model\<close>

text \<open>
  The source (\<^verbatim>\<open>skrf/media/cpw.py\<close>) computes with Python numbers and numpy values.
  A double is modelled as an exact real, extended by the three special values a numpy
  operation produces instead of raising: \<open>+inf\<close>, \<open>-inf\<close> and \<open>nan\<close>. Rounding, overflow and
  the sign of zero are not modelled (a zero divisor is taken as \<open>+0\<close>).
\<close>

datatype npfloat = Fin real | PInf | NInf | NaN

fun fneg :: "npfloat \<Rightarrow> npfloat" where
  "fneg (Fin a) = Fin (- a)"
| "fneg PInf = NInf"
| "fneg NInf = PInf"
| "fneg NaN = NaN"

fun fadd :: "npfloat \<Rightarrow> npfloat \<Rightarrow> npfloat" where
  "fadd (Fin a) (Fin b) = Fin (a + b)"
| "fadd NaN y = NaN"
| "fadd x NaN = NaN"
| "fadd PInf NInf = NaN"
| "fadd NInf PInf = NaN"
| "fadd PInf y = PInf"
| "fadd NInf y = NInf"
| "fadd x PInf = PInf"
| "fadd x NInf = NInf"

definition fsub :: "npfloat \<Rightarrow> npfloat \<Rightarrow> npfloat" where
  "fsub x y = fadd x (fneg y)"

fun fmul :: "npfloat \<Rightarrow> npfloat \<Rightarrow> npfloat" where
  "fmul (Fin a) (Fin b) = Fin (a * b)"
| "fmul NaN y = NaN"
| "fmul x NaN = NaN"
| "fmul (Fin a) PInf = (if a = 0 then NaN else if 0 < a then PInf else NInf)"
| "fmul (Fin a) NInf = (if a = 0 then NaN else if 0 < a then NInf else PInf)"
| "fmul PInf (Fin b) = (if b = 0 then NaN else if 0 < b then PInf else NInf)"
| "fmul NInf (Fin b) = (if b = 0 then NaN else if 0 < b then NInf else PInf)"
| "fmul PInf PInf = PInf"
| "fmul PInf NInf = NInf"
| "fmul NInf PInf = NInf"
| "fmul NInf NInf = PInf"

text \<open>numpy division: a zero divisor gives \<open>inf\<close> or \<open>nan\<close> (with a warning), never an exception.\<close>

fun fdiv :: "npfloat \<Rightarrow> npfloat \<Rightarrow> npfloat" where
  "fdiv (Fin a) (Fin b) =
     (if b \<noteq> 0 then Fin (a / b) else if a = 0 then NaN else if 0 < a then PInf else NInf)"
| "fdiv NaN y = NaN"
| "fdiv x NaN = NaN"
| "fdiv (Fin a) PInf = Fin 0"
| "fdiv (Fin a) NInf = Fin 0"
| "fdiv PInf (Fin b) = (if 0 \<le> b then PInf else NInf)"
| "fdiv NInf (Fin b) = (if 0 \<le> b then NInf else PInf)"
| "fdiv x y = NaN"

fun fsqrt :: "npfloat \<Rightarrow> npfloat" where
  "fsqrt (Fin a) = (if 0 \<le> a then Fin (sqrt a) else NaN)"
| "fsqrt PInf = PInf"
| "fsqrt x = NaN"

fun flog :: "npfloat \<Rightarrow> npfloat" where
  "flog (Fin a) = (if 0 < a then Fin (ln a) else if a = 0 then NInf else NaN)"
| "flog PInf = PInf"
| "flog x = NaN"

fun fle :: "npfloat \<Rightarrow> npfloat \<Rightarrow> bool" where
  "fle (Fin a) (Fin b) = (a \<le> b)"
| "fle NaN y = False"
| "fle x NaN = False"
| "fle NInf y = True"
| "fle x PInf = True"
| "fle x y = False"

fun flt :: "npfloat \<Rightarrow> npfloat \<Rightarrow> bool" where
  "flt (Fin a) (Fin b) = (a < b)"
| "flt NaN y = False"
| "flt x NaN = False"
| "flt PInf y = False"
| "flt x NInf = False"
| "flt x y = True"

text \<open>A complex128 element is a pair of doubles (real part, imaginary part).\<close>

type_synonym npcomplex = "npfloat \<times> npfloat"

definition cadd :: "npcomplex \<Rightarrow> npcomplex \<Rightarrow> npcomplex" where
  "cadd x y = (fadd (fst x) (fst y), fadd (snd x) (snd y))"

definition cmul :: "npcomplex \<Rightarrow> npcomplex \<Rightarrow> npcomplex" where
  "cmul x y = (fsub (fmul (fst x) (fst y)) (fmul (snd x) (snd y)),
               fadd (fmul (fst x) (snd y)) (fmul (snd x) (fst y)))"

text \<open>
  The values an attribute or an expression of the class can hold: \<open>None\<close>, a Python \<open>int\<close>,
  a Python \<open>float\<close>, a numpy float64 scalar (what \<open>sqrt\<close>, \<open>log\<close> and \<open>ellipk\<close> return on a
  scalar), and a one-dimensional float64 array.
\<close>

datatype pyval =
    PyNone
  | PyInt int
  | PyFloat real
  | NpFloat npfloat
  | NdArray "npfloat list"

datatype error = AttributeError | ZeroDivisionError | ValueError | TypeError

type_synonym 'a result = "error + 'a"

fun bind :: "'a result \<Rightarrow> ('a \<Rightarrow> 'b result) \<Rightarrow> 'b result" where
  "bind (Inl e) f = Inl e"
| "bind (Inr v) f = f v"

text \<open>
  A binary operator evaluates its left operand, then its right operand, then applies the
  operation; the first exception raised on the way is the one the caller sees.
\<close>

fun lift2 :: "(pyval \<Rightarrow> pyval \<Rightarrow> 'a result) \<Rightarrow> pyval result \<Rightarrow> pyval result \<Rightarrow> 'a result" where
  "lift2 f (Inl e) y = Inl e"
| "lift2 f (Inr a) (Inl e) = Inl e"
| "lift2 f (Inr a) (Inr b) = f a b"

subsection \<open>numpy broadcasting\<close>

fun to_np :: "pyval \<Rightarrow> npfloat option" where
  "to_np (PyInt i) = Some (Fin (of_int i))"
| "to_np (PyFloat x) = Some (Fin x)"
| "to_np (NpFloat x) = Some x"
| "to_np v = None"

datatype 'a shaped = Scalar 'a | Array "'a list"

text \<open>
  Two arrays combine element by element when their lengths agree or one of them has length
  one; otherwise numpy raises \<^verbatim>\<open>ValueError\<close>. A scalar combines with every element. \<open>None\<close>
  is not a number: \<^verbatim>\<open>TypeError\<close>.
\<close>

definition broadcast :: "('a \<Rightarrow> 'b \<Rightarrow> 'c) \<Rightarrow> 'a list \<Rightarrow> 'b list \<Rightarrow> 'c list result" where
  "broadcast f xs ys =
     (if length xs = length ys then Inr (map2 f xs ys)
      else if length xs = 1 then Inr (map (f (hd xs)) ys)
      else if length ys = 1 then Inr (map (\<lambda>x. f x (hd ys)) xs)
      else Inl ValueError)"

fun np_broadcast :: "(npfloat \<Rightarrow> npfloat \<Rightarrow> 'a) \<Rightarrow> pyval \<Rightarrow> pyval \<Rightarrow> 'a shaped result" where
  "np_broadcast f (NdArray xs) (NdArray ys) = bind (broadcast f xs ys) (\<lambda>zs. Inr (Array zs))"
| "np_broadcast f (NdArray xs) y =
     (case to_np y of None \<Rightarrow> Inl TypeError | Some b \<Rightarrow> Inr (Array (map (\<lambda>a. f a b) xs)))"
| "np_broadcast f x (NdArray ys) =
     (case to_np x of None \<Rightarrow> Inl TypeError | Some a \<Rightarrow> Inr (Array (map (f a) ys)))"
| "np_broadcast f x y =
     (case to_np x of None \<Rightarrow> Inl TypeError
      | Some a \<Rightarrow> (case to_np y of None \<Rightarrow> Inl TypeError | Some b \<Rightarrow> Inr (Scalar (f a b))))"

fun np_value :: "npfloat shaped \<Rightarrow> pyval" where
  "np_value (Scalar a) = NpFloat a"
| "np_value (Array xs) = NdArray xs"

definition np_binop :: "(npfloat \<Rightarrow> npfloat \<Rightarrow> npfloat) \<Rightarrow> pyval \<Rightarrow> pyval \<Rightarrow> pyval result" where
  "np_binop f x y = bind (np_broadcast f x y) (\<lambda>r. Inr (np_value r))"

text \<open>
  The truth value of a comparison result, as \<^verbatim>\<open>if\<close> and \<^verbatim>\<open>and\<close> take it: an array of more
  than one element has none (\<^verbatim>\<open>ValueError\<close>: the truth value of an array is ambiguous), an
  array of one element has that element's, an empty array is false.
\<close>

fun truth :: "bool shaped \<Rightarrow> bool result" where
  "truth (Scalar b) = Inr b"
| "truth (Array []) = Inr False"
| "truth (Array [b]) = Inr b"
| "truth (Array bs) = Inl ValueError"

definition py_le :: "pyval \<Rightarrow> pyval \<Rightarrow> bool result" where
  "py_le x y = bind (np_broadcast fle x y) truth"

definition py_lt :: "pyval \<Rightarrow> pyval \<Rightarrow> bool result" where
  "py_lt x y = bind (np_broadcast flt x y) truth"

subsection \<open>Python arithmetic\<close>

text \<open>
  Between two Python numbers the operation is Python's (\<open>int\<close> with \<open>int\<close> stays \<open>int\<close>, a
  \<open>float\<close> operand makes the result a \<open>float\<close>, a zero divisor raises); as soon as a numpy
  value takes part the operation is numpy's.
\<close>

fun py_arith ::
  "(int \<Rightarrow> int \<Rightarrow> pyval result) \<Rightarrow> (real \<Rightarrow> real \<Rightarrow> pyval result) \<Rightarrow>
   (npfloat \<Rightarrow> npfloat \<Rightarrow> npfloat) \<Rightarrow> pyval \<Rightarrow> pyval \<Rightarrow> pyval result" where
  "py_arith fi fr fn (PyInt a) (PyInt b) = fi a b"
| "py_arith fi fr fn (PyInt a) (PyFloat b) = fr (of_int a) b"
| "py_arith fi fr fn (PyFloat a) (PyInt b) = fr a (of_int b)"
| "py_arith fi fr fn (PyFloat a) (PyFloat b) = fr a b"
| "py_arith fi fr fn x y = np_binop fn x y"

definition py_add :: "pyval \<Rightarrow> pyval \<Rightarrow> pyval result" where
  "py_add = py_arith (\<lambda>a b. Inr (PyInt (a + b))) (\<lambda>a b. Inr (PyFloat (a + b))) fadd"

definition py_sub :: "pyval \<Rightarrow> pyval \<Rightarrow> pyval result" where
  "py_sub = py_arith (\<lambda>a b. Inr (PyInt (a - b))) (\<lambda>a b. Inr (PyFloat (a - b))) fsub"

definition py_mul :: "pyval \<Rightarrow> pyval \<Rightarrow> pyval result" where
  "py_mul = py_arith (\<lambda>a b. Inr (PyInt (a * b))) (\<lambda>a b. Inr (PyFloat (a * b))) fmul"

definition float_div :: "real \<Rightarrow> real \<Rightarrow> pyval result" where
  "float_div a b = (if b = 0 then Inl ZeroDivisionError else Inr (PyFloat (a / b)))"

text \<open>True division, the \<^verbatim>\<open>/\<close> of a module with \<^verbatim>\<open>from __future__ import division\<close>.\<close>

definition py_truediv :: "pyval \<Rightarrow> pyval \<Rightarrow> pyval result" where
  "py_truediv = py_arith (\<lambda>a b. float_div (of_int a) (of_int b)) float_div fdiv"

text \<open>
  \<^verbatim>\<open>past.utils.old_div\<close>: floor division when both operands are integers, true division
  otherwise.
\<close>

fun old_div :: "pyval \<Rightarrow> pyval \<Rightarrow> pyval result" where
  "old_div (PyInt a) (PyInt b) = (if b = 0 then Inl ZeroDivisionError else Inr (PyInt (a div b)))"
| "old_div x y = py_truediv x y"

text \<open>\<^verbatim>\<open>x**2\<close>\<close>

definition py_pow2 :: "pyval \<Rightarrow> pyval result" where
  "py_pow2 x = py_mul x x"

fun np_apply :: "(npfloat \<Rightarrow> npfloat) \<Rightarrow> pyval \<Rightarrow> pyval result" where
  "np_apply f (NdArray xs) = Inr (NdArray (map f xs))"
| "np_apply f x = (case to_np x of None \<Rightarrow> Inl TypeError | Some a \<Rightarrow> Inr (NpFloat (f a)))"

definition np_sqrt :: "pyval \<Rightarrow> pyval result" where
  "np_sqrt = np_apply fsqrt"

definition np_log :: "pyval \<Rightarrow> pyval result" where
  "np_log = np_apply flog"

text \<open>
  Operations between a complex128 array (left) and a real value: numpy converts the real
  operand to complex (imaginary part zero) and applies the complex operation element by
  element, broadcasting as above.
\<close>

definition promote :: "npfloat \<Rightarrow> npcomplex" where
  "promote a = (a, Fin 0)"

fun complex_binop ::
  "(npcomplex \<Rightarrow> npcomplex \<Rightarrow> npcomplex) \<Rightarrow> npcomplex list \<Rightarrow> pyval \<Rightarrow> npcomplex list result" where
  "complex_binop f zs (NdArray xs) = broadcast (\<lambda>z x. f z (promote x)) zs xs"
| "complex_binop f zs x =
     (case to_np x of None \<Rightarrow> Inl TypeError | Some a \<Rightarrow> Inr (map (\<lambda>z. f z (promote a)) zs))"

text \<open>\<^verbatim>\<open>zeros(n)\<close> and \<^verbatim>\<open>ones(n, dtype='complex')\<close>\<close>

definition zeros :: "nat \<Rightarrow> pyval" where
  "zeros n = NdArray (replicate n (Fin 0))"

definition ones_complex :: "nat \<Rightarrow> npcomplex list" where
  "ones_complex n = replicate n (Fin 1, Fin 0)"

section \<open>Collaborators\<close>

text \<open>
  What the module imports and this development does not define: \<^verbatim>\<open>scipy.special.ellipk\<close>
  (a numpy function of one double), \<^verbatim>\<open>surface_resistivity(f, rho, mu_r)\<close> of
  \<^verbatim>\<open>skrf.tlineFunctions\<close>, and the constants \<^verbatim>\<open>epsilon_0\<close> and \<^verbatim>\<open>mu_0\<close> of
  \<^verbatim>\<open>scipy.constants\<close>. They are parameters of the accessors that use them.
\<close>

record collaborators =
  ellipk :: "npfloat \<Rightarrow> npfloat"
  surface_resistivity :: "pyval \<Rightarrow> pyval \<Rightarrow> pyval \<Rightarrow> pyval result"
  epsilon_0 :: real
  mu_0 :: real

section \<open>The class \<^verbatim>\<open>CPW\<close>\<close>

text \<open>
  The attributes set by \<^verbatim>\<open>__init__\<close>. \<open>frequency\<close> holds the array \<^verbatim>\<open>frequency.f\<close> of the
  sweep, in hertz.
\<close>

record cpw =
  frequency :: "real list"
  z0 :: pyval
  w :: pyval
  s :: pyval
  ep_r :: pyval
  t :: pyval
  rho :: pyval

text \<open>
  \<^verbatim>\<open>CPW(frequency, z0, w, s, ep_r, t, rho)\<close>, and the call \<^verbatim>\<open>CPW(frequency)\<close> that leaves
  every other argument at its default (\<^verbatim>\<open>z0=None, w=70, s=4, ep_r=3, t=None, rho=None\<close>).
\<close>

definition CPW :: "real list \<Rightarrow> pyval \<Rightarrow> pyval \<Rightarrow> pyval \<Rightarrow> pyval \<Rightarrow> pyval \<Rightarrow> pyval \<Rightarrow> cpw" where
  "CPW fs z0' w' s' ep_r' t' rho' =
     \<lparr>frequency = fs, z0 = z0', w = w', s = s', ep_r = ep_r', t = t', rho = rho'\<rparr>"

definition CPW_default :: "real list \<Rightarrow> cpw" where
  "CPW_default fs = CPW fs PyNone (PyInt 70) (PyInt 4) (PyInt 3) PyNone PyNone"

definition frequency_f :: "cpw \<Rightarrow> pyval" where
  "frequency_f self = NdArray (map Fin (frequency self))"

text \<open>\<^verbatim>\<open>old_div((self.ep_r+1),2.)\<close>\<close>

definition ep_re :: "cpw \<Rightarrow> pyval result" where
  "ep_re self = lift2 old_div (py_add (ep_r self) (PyInt 1)) (Inr (PyFloat 2))"

text \<open>\<^verbatim>\<open>old_div(self.w,(self.w +2*self.s))\<close>\<close>

definition k1 :: "cpw \<Rightarrow> pyval result" where
  "k1 self =
     lift2 old_div (Inr (w self)) (lift2 py_add (Inr (w self)) (py_mul (PyInt 2) (s self)))"

text \<open>\<^verbatim>\<open>old_div(1,sqrt(2))\<close>\<close>

definition inv_sqrt2 :: "pyval result" where
  "inv_sqrt2 = lift2 old_div (Inr (PyInt 1)) (np_sqrt (PyInt 2))"

text \<open>\<^verbatim>\<open>log(2*(1+sqrt(k1))/(1-sqrt(k1)))\<close>\<close>

definition log_term :: "pyval \<Rightarrow> pyval result" where
  "log_term k =
     bind (lift2 py_truediv
             (lift2 py_mul (Inr (PyInt 2)) (lift2 py_add (Inr (PyInt 1)) (np_sqrt k)))
             (lift2 py_sub (Inr (PyInt 1)) (np_sqrt k)))
          np_log"

text \<open>
  The chained comparisons \<^verbatim>\<open>0 <= k1 <= old_div(1,sqrt(2))\<close> and
  \<^verbatim>\<open>old_div(1,sqrt(2)) < k1 <= 1\<close>: the second comparison is evaluated only when the first
  is true.
\<close>

definition in_first_branch :: "pyval \<Rightarrow> bool result" where
  "in_first_branch k =
     bind (py_le (PyInt 0) k) (\<lambda>b. if b then lift2 py_le (Inr k) inv_sqrt2 else Inr False)"

definition in_second_branch :: "pyval \<Rightarrow> bool result" where
  "in_second_branch k =
     bind (lift2 py_lt inv_sqrt2 (Inr k)) (\<lambda>b. if b then py_le k (PyInt 1) else Inr False)"

text \<open>
  \<^verbatim>\<open>K_ratio\<close>: an \<^verbatim>\<open>if\<close>/\<^verbatim>\<open>elif\<close> without \<^verbatim>\<open>else\<close>; when neither condition holds the
  property falls off its end and returns \<open>None\<close>.
\<close>

definition K_ratio :: "cpw \<Rightarrow> pyval result" where
  "K_ratio self =
     bind (k1 self) (\<lambda>k.
     bind (in_first_branch k) (\<lambda>first.
       if first then lift2 old_div (Inr (PyFloat pi)) (log_term k)
       else bind (in_second_branch k) (\<lambda>second.
         if second then lift2 old_div (log_term k) (Inr (PyFloat pi))
         else Inr PyNone)))"

text \<open>\<^verbatim>\<open>K_p = lambda x: ellipk(sqrt(1-x**2))\<close>\<close>

definition K_p :: "collaborators \<Rightarrow> pyval \<Rightarrow> pyval result" where
  "K_p env x =
     bind (bind (lift2 py_sub (Inr (PyInt 1)) (py_pow2 x)) np_sqrt) (np_apply (ellipk env))"

text \<open>\<^verbatim>\<open>pi+log(old_div((8*pi*a*(1-k1)),(t*(1+k1))))\<close>, for \<open>a\<close> and for \<open>b\<close>\<close>

definition edge_term :: "pyval \<Rightarrow> pyval \<Rightarrow> pyval \<Rightarrow> pyval result" where
  "edge_term a k tv =
     lift2 py_add (Inr (PyFloat pi))
       (bind (lift2 old_div
                (lift2 py_mul (lift2 py_mul (py_mul (PyInt 8) (PyFloat pi)) (Inr a))
                              (py_sub (PyInt 1) k))
                (lift2 py_mul (Inr tv) (py_add (PyInt 1) k)))
             np_log)"

definition alpha_conductor :: "collaborators \<Rightarrow> cpw \<Rightarrow> pyval result" where
  "alpha_conductor env self =
     (if rho self = PyNone \<or> t self = PyNone then Inl AttributeError
      else
        bind (k1 self) (\<lambda>k.
        bind (ep_re self) (\<lambda>e.
        bind (surface_resistivity env (frequency_f self) (rho self) (PyInt 1)) (\<lambda>r_s.
        bind (old_div (w self) (PyFloat 2)) (\<lambda>a.
        bind (lift2 py_add (Inr (s self)) (old_div (w self) (PyFloat 2))) (\<lambda>b.
          lift2 py_mul
            (lift2 py_truediv
               (lift2 py_mul (Inr r_s) (np_sqrt e))
               (lift2 py_mul
                  (lift2 py_mul
                     (lift2 py_mul (py_mul (PyInt 480) (PyFloat pi)) (np_apply (ellipk env) k))
                     (K_p env k))
                  (lift2 py_sub (Inr (PyInt 1)) (py_pow2 k))))
            (lift2 py_add
               (lift2 py_mul (py_truediv (PyFloat 1) a) (edge_term a k (t self)))
               (lift2 py_mul (py_truediv (PyFloat 1) b) (edge_term b k (t self))))))))))"

text \<open>
  \<^verbatim>\<open>(30.*pi / sqrt(self.ep_re) * self.K_ratio)*ones(len(self.frequency.f), dtype='complex')\<close>
\<close>

definition Z0 :: "cpw \<Rightarrow> npcomplex list result" where
  "Z0 self =
     bind (lift2 py_mul
             (lift2 py_truediv (py_mul (PyFloat 30) (PyFloat pi)) (bind (ep_re self) np_sqrt))
             (K_ratio self))
          (complex_binop (\<lambda>z x. cmul x z) (ones_complex (length (frequency self))))"

text \<open>
  \<^verbatim>\<open>beta = 1j*2*pi*self.frequency.f*sqrt(self.ep_re*epsilon_0*mu_0)\<close>: the Python complex
  \<^verbatim>\<open>1j*2*pi\<close> is \<open>0 + 2\<pi>j\<close>; times the frequency array it gives a complex array, which
  is then multiplied by the square root.
\<close>

definition beta :: "collaborators \<Rightarrow> cpw \<Rightarrow> npcomplex list result" where
  "beta env self =
     bind (bind (lift2 py_mul (lift2 py_mul (ep_re self) (Inr (PyFloat (epsilon_0 env))))
                              (Inr (PyFloat (mu_0 env))))
                np_sqrt)
          (complex_binop cmul (map (\<lambda>f. cmul (Fin 0, Fin (2 * pi)) (promote (Fin f))) (frequency self)))"

definition gamma :: "collaborators \<Rightarrow> cpw \<Rightarrow> npcomplex list result" where
  "gamma env self =
     bind (beta env self) (\<lambda>b.
     bind (if rho self \<noteq> PyNone \<and> t self \<noteq> PyNone then alpha_conductor env self
           else Inr (zeros (length b))) (\<lambda>alpha.
       complex_binop cadd b alpha))"

section \<open>The formulas of the specification\<close>

text \<open>
  The argument of the logarithm and the two branch formulas of the elliptic ratio, as
  functions of a real modulus, following the specification's words:
  \<open>\<pi> / ln(2(1+\<surd>k)/(1-\<surd>k))\<close> and \<open>ln(2(1+\<surd>k)/(1-\<surd>k)) / \<pi>\<close>.
\<close>

definition log_arg :: "real \<Rightarrow> real" where
  "log_arg x = 2 * (1 + sqrt x) / (1 - sqrt x)"

definition ratio_low :: "real \<Rightarrow> real" where
  "ratio_low x = pi / ln (log_arg x)"

definition ratio_high :: "real \<Rightarrow> real" where
  "ratio_high x = ln (log_arg x) / pi"



text \<open>
  One instance of the collaborators, used only where a theorem is instantiated at a concrete
  input (the theorems hold for every instance): the SI values of the two constants, a
  surface resistivity equal to the square root of the frequency, and a constant \<open>ellipk\<close>
  (\<open>\<pi>/2\<close>, the value of the elliptic integral at zero).
\<close>

definition example_collaborators :: collaborators where
  "example_collaborators =
     \<lparr>ellipk = (\<lambda>x. Fin (pi / 2)),
      surface_resistivity = (\<lambda>f r m. np_sqrt f),
      epsilon_0 = 8854187817 / 10 ^ 21,
      mu_0 = 4 * pi / 10 ^ 7\<rparr>"

section \<open>Evaluating the operations on scalars\<close>

lemmas py_defs = py_add_def py_sub_def py_mul_def py_truediv_def float_div_def np_sqrt_def
  np_log_def py_le_def py_lt_def np_binop_def fsub_def py_pow2_def

lemma to_np_FinE:
  assumes "to_np k = Some (Fin x)"
  obtains i where "k = PyInt i" "x = of_int i" | "k = PyFloat x" | "k = NpFloat (Fin x)"
  using assms by (cases k) auto















lemma inv_sqrt2_less_one: "1 / sqrt 2 < (1::real)"
  by simp

lemma log_arg_ge2: "0 \<le> x \<Longrightarrow> x < 1 \<Longrightarrow> 2 \<le> log_arg x"
proof -
  assume a: "0 \<le> x" "x < 1"
  then have r: "0 \<le> sqrt x" "sqrt x < 1" by simp_all
  then have "2 * (1 - sqrt x) \<le> 2 * (1 + sqrt x)" by simp
  with r show ?thesis unfolding log_arg_def by (simp add: pos_le_divide_eq)
qed

lemma ln_log_arg_pos: "0 \<le> x \<Longrightarrow> x < 1 \<Longrightarrow> 0 < ln (log_arg x)"
  using log_arg_ge2 [of x] by simp

lemma flog_fdiv_log_arg:
  assumes "0 \<le> x" "x < 1"
  shows "flog (fdiv (Fin (2 + 2 * sqrt x)) (Fin (1 - sqrt x))) = Fin (ln (log_arg x))"
proof -
  have r: "sqrt x < 1" using assms by simp
  have p: "0 < log_arg x" using log_arg_ge2 [OF assms] by simp
  have "fdiv (Fin (2 + 2 * sqrt x)) (Fin (1 - sqrt x)) = Fin (log_arg x)"
    using r by (simp add: log_arg_def)
  then show ?thesis using p by simp
qed

lemma log_term_scalar:
  assumes "to_np k = Some (Fin x)" "0 \<le> x" "x < 1"
  shows "log_term k = Inr (NpFloat (Fin (ln (log_arg x))))"
  using assms(1)
proof (rule to_np_FinE)
  fix i assume "k = PyInt i" "x = of_int i"
  then show ?thesis
    using flog_fdiv_log_arg [OF assms(2,3)] assms(2)
    by (simp add: log_term_def py_defs del: fdiv.simps flog.simps)
next
  assume "k = PyFloat x"
  then show ?thesis
    using flog_fdiv_log_arg [OF assms(2,3)] assms(2)
    by (simp add: log_term_def py_defs del: fdiv.simps flog.simps)
next
  assume "k = NpFloat (Fin x)"
  then show ?thesis
    using flog_fdiv_log_arg [OF assms(2,3)] assms(2)
    by (simp add: log_term_def py_defs del: fdiv.simps flog.simps)
qed

lemma log_term_one:
  assumes "to_np k = Some (Fin 1)"
  shows "log_term k = Inr (NpFloat PInf)"
  using assms by (rule to_np_FinE) (simp_all add: log_term_def py_defs)

lemma in_first_branch_scalar:
  assumes "to_np k = Some (Fin x)"
  shows "in_first_branch k = Inr (0 \<le> x \<and> x \<le> 1 / sqrt 2)"
  using assms by (rule to_np_FinE) (simp_all add: in_first_branch_def inv_sqrt2_def py_defs)

lemma in_second_branch_scalar:
  assumes "to_np k = Some (Fin x)"
  shows "in_second_branch k = Inr (1 / sqrt 2 < x \<and> x \<le> 1)"
  using assms by (rule to_np_FinE) (simp_all add: in_second_branch_def inv_sqrt2_def py_defs)

section \<open>The elliptic modulus\<close>

lemma k1_float:
  assumes "w self = PyFloat a" "s self = PyFloat b" "a + 2 * b \<noteq> 0"
  shows "k1 self = Inr (PyFloat (a / (a + 2 * b)))"
  using assms by (simp add: k1_def py_defs)

lemma k1_positive:
  assumes "to_np (w self) = Some (Fin a)" "to_np (s self) = Some (Fin b)" "0 < a" "0 < b"
  shows "\<exists>k x. k1 self = Inr k \<and> to_np k = Some (Fin x) \<and> 0 \<le> x \<and> x < 1"
proof (cases "\<exists>i j. w self = PyInt i \<and> s self = PyInt j")
  case True
  then obtain i j where ij: "w self = PyInt i" "s self = PyInt j" by blast
  then have "0 < i" "0 < j" using assms by simp_all
  then have "i div (i + 2 * j) = 0" "i + 2 * j \<noteq> 0" by simp_all
  then show ?thesis using ij by (simp add: k1_def py_defs)
next
  case False
  have q: "a + 2 * b \<noteq> 0" "0 \<le> a / (a + 2 * b)" "a / (a + 2 * b) < 1"
    using assms(3,4) by simp_all
  have "k1 self = Inr (PyFloat (a / (a + 2 * b))) \<or> k1 self = Inr (NpFloat (Fin (a / (a + 2 * b))))"
    using assms(1,2) False q(1) by (auto elim!: to_np_FinE simp: k1_def py_defs)
  then show ?thesis using q(2,3) by auto
qed


section \<open>The elliptic ratio\<close>

text \<open>What \<open>K_ratio\<close> returns for a finite scalar modulus, in and out of range.\<close>

lemma K_ratio_scalar:
  assumes "k1 self = Inr k" "to_np k = Some (Fin x)"
  shows "K_ratio self =
    Inr (if 0 \<le> x \<and> x \<le> 1 / sqrt 2 then NpFloat (Fin (ratio_low x))
         else if 1 / sqrt 2 < x \<and> x < 1 then NpFloat (Fin (ratio_high x))
         else if x = 1 then NpFloat PInf
         else PyNone)"
proof -
  note s2 = inv_sqrt2_less_one
  note br = in_first_branch_scalar [OF assms(2)] in_second_branch_scalar [OF assms(2)]
  consider (low) "0 \<le> x" "x \<le> 1 / sqrt 2" | (high) "1 / sqrt 2 < x" "x < 1" | (one) "x = 1"
    | (neg) "x < 0" | (big) "1 < x" by linarith
  then show ?thesis
  proof cases
    case low
    then have x1: "x < 1" using s2 by linarith
    have "ln (log_arg x) \<noteq> 0" using ln_log_arg_pos [OF low(1) x1] by simp
    then show ?thesis
      using low by (simp add: K_ratio_def assms(1) br
          log_term_scalar [OF assms(2) low(1) x1] py_defs ratio_low_def)
  next
    case high
    have "(0::real) < 1 / sqrt 2" by simp
    then have x0: "0 \<le> x" using high(1) by linarith
    have nl: "\<not> x \<le> 1 / sqrt 2" using high by simp
    show ?thesis
      using high nl by (simp add: K_ratio_def assms(1) br
          log_term_scalar [OF assms(2) x0 high(2)] py_defs ratio_high_def)
  next
    case one
    have nl: "\<not> (1::real) \<le> 1 / sqrt 2" using s2 by simp
    show ?thesis
      using one nl s2 assms(2) by (simp add: K_ratio_def assms(1) br log_term_one py_defs)
  next
    case neg
    have "(0::real) < 1 / sqrt 2" by simp
    then have "\<not> 1 / sqrt 2 < x" using neg by linarith
    then show ?thesis using neg by (simp add: K_ratio_def assms(1) br)
  next
    case big
    then have nl: "\<not> x \<le> 1 / sqrt 2" using s2 by linarith
    show ?thesis using big nl by (simp add: K_ratio_def assms(1) br)
  qed
qed

lemma quarter_le_inv_sqrt2: "(1 / 4 :: real) \<le> 1 / sqrt 2"
proof -
  have "sqrt 2 \<le> 4" using sqrt2_less_2 by simp
  then show ?thesis by (simp add: field_simps)
qed

text \<open>
  On the modulus the accessor computes, a finite scalar \<open>x\<close> in [0,1], \<open>K_ratio\<close> returns
  \<open>\<pi> / ln(2(1+\<surd>x)/(1-\<surd>x))\<close> for \<open>0 \<le> x \<le> 1/\<surd>2\<close> (the boundary point included) and
  \<open>ln(2(1+\<surd>x)/(1-\<surd>x)) / \<pi>\<close> for \<open>1/\<surd>2 < x \<le> 1\<close>. At \<open>x = 1\<close> the quotient inside the
  logarithm is a numpy division by zero, \<open>+inf\<close>, and so is the value of the second formula.
  For float widths the computed modulus is \<open>w/(w+2s)\<close>.
\<close>

lemma K_ratio_on_computed_modulus:
  assumes "k1 self = Inr k" and "to_np k = Some (Fin x)" and "0 \<le> x" and "x \<le> 1"
  shows "K_ratio self =
    Inr (NpFloat (if x \<le> 1 / sqrt 2 then Fin (ratio_low x)
                  else if x < 1 then Fin (ratio_high x)
                  else PInf))"
  using K_ratio_scalar [OF assms(1,2)] assms(3,4) by auto

lemma K_ratio_float_store:
  assumes "w self = PyFloat a" and "s self = PyFloat b" and "a + 2 * b \<noteq> 0"
    and "0 \<le> a / (a + 2 * b)" and "a / (a + 2 * b) \<le> 1"
  shows "K_ratio self =
    Inr (NpFloat (if a / (a + 2 * b) \<le> 1 / sqrt 2 then Fin (ratio_low (a / (a + 2 * b)))
                  else if a / (a + 2 * b) < 1 then Fin (ratio_high (a / (a + 2 * b)))
                  else PInf))"
  by (rule K_ratio_on_computed_modulus [OF k1_float [OF assms(1-3)] _ assms(4,5)]) simp

subsection \<open>Monotonicity\<close>

lemma log_arg_strict_mono:
  assumes "0 \<le> x" "x < y" "y < 1"
  shows "log_arg x < log_arg y"
proof -
  have r: "0 \<le> sqrt x" "sqrt x < sqrt y" "sqrt y < 1" using assms by simp_all
  show ?thesis
    unfolding log_arg_def using r by (intro frac_less) simp_all
qed

text \<open>On the whole first branch the returned value falls as the modulus grows.\<close>

lemma ratio_low_strict_antimono:
  assumes "0 \<le> x" "x < y" "y < 1"
  shows "ratio_low y < ratio_low x"
proof -
  have x1: "x < 1" using assms by simp
  have y0: "0 \<le> y" using assms by simp
  have "0 < log_arg x" using log_arg_ge2 [OF assms(1) x1] by simp
  moreover have "0 < log_arg y" using log_arg_ge2 [OF y0 assms(3)] by simp
  ultimately have "ln (log_arg x) < ln (log_arg y)"
    using log_arg_strict_mono [OF assms] by simp
  then show ?thesis
    unfolding ratio_low_def using ln_log_arg_pos [OF assms(1) x1]
    by (intro divide_strict_left_mono) simp_all
qed

lemma ratio_low_quarter: "ratio_low (1 / 4) = pi / ln 6"
proof -
  have h: "sqrt (1 / 4) = 1 / 2" by (rule real_sqrt_unique) (simp_all add: power2_eq_square)
  have "log_arg (1 / 4) = 2 * (1 + 1 / 2) / (1 - 1 / 2)" unfolding log_arg_def h ..
  then have "log_arg (1 / 4) = 6" by simp
  then show ?thesis by (simp add: ratio_low_def)
qed

lemma ratio_low_four_ninths: "ratio_low (4 / 9) = pi / ln 10"
proof -
  have h: "sqrt (4 / 9) = 2 / 3" by (rule real_sqrt_unique) (simp_all add: power2_eq_square)
  have "log_arg (4 / 9) = 2 * (1 + 2 / 3) / (1 - 2 / 3)" unfolding log_arg_def h ..
  then have "log_arg (4 / 9) = 10" by simp
  then show ?thesis by (simp add: ratio_low_def)
qed

lemma four_ninths_le_inv_sqrt2: "(4 / 9 :: real) \<le> 1 / sqrt 2"
proof -
  have "sqrt 2 \<le> 9 / 4" using sqrt2_less_2 by simp
  then show ?thesis by (simp add: field_simps)
qed

text \<open>
  Claim C5 says that the elliptic ratio is strictly increasing in the modulus over (0,1).
  On the first branch the code divides \<open>\<pi>\<close> by a logarithm that grows with the modulus, so
  the value falls: at the moduli \<open>1/4 < 4/9\<close> (both below \<open>1/\<surd>2\<close>) \<open>K_ratio\<close> returns
  \<open>\<pi>/ln 6\<close> and then the smaller \<open>\<pi>/ln 10\<close>.
\<close>

theorem K_ratio_not_increasing:
  "k1 (CPW [1] PyNone (PyFloat 1) (PyFloat (3 / 2)) (PyFloat 3) PyNone PyNone) = Inr (PyFloat (1 / 4)) \<and>
   k1 (CPW [1] PyNone (PyFloat 4) (PyFloat (5 / 2)) (PyFloat 3) PyNone PyNone) = Inr (PyFloat (4 / 9)) \<and>
   K_ratio (CPW [1] PyNone (PyFloat 1) (PyFloat (3 / 2)) (PyFloat 3) PyNone PyNone) =
     Inr (NpFloat (Fin (pi / ln 6))) \<and>
   K_ratio (CPW [1] PyNone (PyFloat 4) (PyFloat (5 / 2)) (PyFloat 3) PyNone PyNone) =
     Inr (NpFloat (Fin (pi / ln 10))) \<and>
   pi / ln 10 < pi / ln (6 :: real)"
proof -
  have a: "k1 (CPW [1] PyNone (PyFloat 1) (PyFloat (3 / 2)) (PyFloat 3) PyNone PyNone) = Inr (PyFloat (1 / 4))"
    by (simp add: k1_def CPW_def py_defs)
  have b: "k1 (CPW [1] PyNone (PyFloat 4) (PyFloat (5 / 2)) (PyFloat 3) PyNone PyNone) = Inr (PyFloat (4 / 9))"
    by (simp add: k1_def CPW_def py_defs)
  have "ln 6 < ln (10 :: real)" by simp
  moreover have "0 < ln (6 :: real)" by simp
  ultimately have c: "pi / ln 10 < pi / ln (6 :: real)"
    by (simp add: divide_strict_left_mono)
  show ?thesis
    using K_ratio_scalar [OF a, of "1 / 4"] K_ratio_scalar [OF b, of "4 / 9"] a b c
      quarter_le_inv_sqrt2 four_ninths_le_inv_sqrt2
    by (simp add: ratio_low_quarter ratio_low_four_ninths)
qed

subsection \<open>Modulus out of range\<close>

lemma py_mul_None: "py_mul v PyNone = Inl TypeError"
  by (cases v) (simp_all add: py_defs)

lemma Z0_of_None:
  assumes "K_ratio self = Inr PyNone"
  shows "Z0 self = Inl TypeError"
  using assms by (cases "ep_r self") (simp_all add: Z0_def ep_re_def py_defs py_mul_None)

text \<open>
  Claim C9 says that a modulus outside [0,1] makes the elliptic ratio propagate a
  numeric-domain error. At \<open>w = 2.0\<close>, \<open>s = -0.5\<close> the modulus is 2 and \<open>K_ratio\<close> raises
  nothing: neither condition holds and the property returns \<open>None\<close>.
\<close>

theorem K_ratio_out_of_range_counterexample:
  "k1 (CPW [1] PyNone (PyFloat 2) (PyFloat (- 1 / 2)) (PyFloat 3) PyNone PyNone) = Inr (PyFloat 2) \<and>
   K_ratio (CPW [1] PyNone (PyFloat 2) (PyFloat (- 1 / 2)) (PyFloat 3) PyNone PyNone) = Inr PyNone"
proof -
  have a: "k1 (CPW [1] PyNone (PyFloat 2) (PyFloat (- 1 / 2)) (PyFloat 3) PyNone PyNone) = Inr (PyFloat 2)"
    by (simp add: k1_def CPW_def py_defs)
  have "\<not> (2 :: real) \<le> 1 / sqrt 2" using inv_sqrt2_less_one by linarith
  then show ?thesis using K_ratio_scalar [OF a, of 2] a by simp
qed

text \<open>
  Claim C9, as the code has it: for a finite scalar modulus outside [0,1], \<open>K_ratio\<close>
  returns \<open>None\<close> without raising, and \<open>Z0\<close> then raises \<^verbatim>\<open>TypeError\<close> (the product of a number
  and \<open>None\<close>), so no numeric impedance is returned.
\<close>

theorem K_ratio_out_of_range:
  assumes "k1 self = Inr k" and "to_np k = Some (Fin x)" and "x < 0 \<or> 1 < x"
  shows "K_ratio self = Inr PyNone \<and> Z0 self = Inl TypeError"
proof -
  have "\<not> x \<le> 1 / sqrt 2" if "1 < x" using that inv_sqrt2_less_one by linarith
  moreover have "\<not> 1 / sqrt 2 < x" if "x < 0"
  proof -
    have "(0::real) < 1 / sqrt 2" by simp
    then show ?thesis using that by linarith
  qed
  ultimately have "K_ratio self = Inr PyNone"
    using K_ratio_scalar [OF assms(1,2)] assms(3) by auto
  then show ?thesis by (simp add: Z0_of_None)
qed

theorem K_ratio_out_of_range_witness:
  "k1 (CPW [1] PyNone (PyInt 3) (PyInt (- 1)) (PyFloat 3) PyNone PyNone) = Inr (PyInt 3) \<and>
   to_np (PyInt 3) = Some (Fin 3) \<and> (1 :: real) < 3 \<and>
   K_ratio (CPW [1] PyNone (PyInt 3) (PyInt (- 1)) (PyFloat 3) PyNone PyNone) = Inr PyNone \<and>
   Z0 (CPW [1] PyNone (PyInt 3) (PyInt (- 1)) (PyFloat 3) PyNone PyNone) = Inl TypeError"
proof -
  have a: "k1 (CPW [1] PyNone (PyInt 3) (PyInt (- 1)) (PyFloat 3) PyNone PyNone) = Inr (PyInt 3)"
    by (simp add: k1_def CPW_def py_defs)
  have n: "to_np (PyInt 3) = Some (Fin 3)" by simp
  have r: "(3 :: real) < 0 \<or> 1 < (3 :: real)" by simp
  show ?thesis using K_ratio_out_of_range [OF a n r] a by simp
qed

subsection \<open>The branch point\<close>

lemma arctan_partial_sums:
  fixes x :: real
  assumes "0 \<le> x" "x \<le> 1"
  shows "(\<Sum>i<2*n. (- 1) ^ i * (1 / real (i * 2 + 1) * x ^ (i * 2 + 1))) \<le> arctan x"
    and "arctan x \<le> (\<Sum>i<2*n+1. (- 1) ^ i * (1 / real (i * 2 + 1) * x ^ (i * 2 + 1)))"
proof -
  let ?a = "\<lambda>i. 1 / real (i * 2 + 1) * x ^ (i * 2 + 1)"
  have ab: "\<bar>x\<bar> \<le> 1" using assms by simp
  have z: "?a \<longlonglongrightarrow> 0" by (rule zeroseq_arctan_series [OF ab])
  have p: "0 \<le> ?a i" for i using assms by simp
  have m: "?a (Suc i) \<le> ?a i" for i
  proof -
    have "x ^ (Suc i * 2 + 1) \<le> x ^ (i * 2 + 1)"
      using assms by (intro power_decreasing) simp_all
    moreover have "1 / real (Suc i * 2 + 1) \<le> 1 / real (i * 2 + 1)"
      by (intro divide_left_mono) simp_all
    moreover have "0 \<le> x ^ (Suc i * 2 + 1)" "0 \<le> 1 / real (i * 2 + 1)" using assms by simp_all
    ultimately show ?thesis by (intro mult_mono) simp_all
  qed
  note l = summable_Leibniz' [of ?a, OF z p m]
  show "(\<Sum>i<2*n. (- 1) ^ i * ?a i) \<le> arctan x"
    unfolding arctan_series [OF ab] by (rule l(2))
  show "arctan x \<le> (\<Sum>i<2*n+1. (- 1) ^ i * ?a i)"
    unfolding arctan_series [OF ab] by (rule l(4))
qed

lemma pi_upper: "pi < 31415927 / 10 ^ 7"
proof -
  have a: "arctan (1 / 7) \<le> (\<Sum>i<2*2+1. (- 1) ^ i * (1 / real (i * 2 + 1) * (1 / 7) ^ (i * 2 + 1)))"
    by (rule arctan_partial_sums(2)) simp_all
  have b: "arctan (3 / 79) \<le> (\<Sum>i<2*1+1. (- 1) ^ i * (1 / real (i * 2 + 1) * (3 / 79) ^ (i * 2 + 1)))"
    by (rule arctan_partial_sums(2)) simp_all
  have "pi = 4 * (5 * arctan (1 / 7) + 2 * arctan (3 / 79))"
    using machin_Euler by simp
  also have "\<dots> \<le> 4 * (5 * (\<Sum>i<2*2+1. (- 1) ^ i * (1 / real (i * 2 + 1) * (1 / 7) ^ (i * 2 + 1)))
      + 2 * (\<Sum>i<2*1+1. (- 1) ^ i * (1 / real (i * 2 + 1) * (3 / 79) ^ (i * 2 + 1))))"
    using a b by simp
  also have "\<dots> < 31415927 / 10 ^ 7"
    by (simp add: lessThan_nat_numeral lessThan_Suc power_divide)
  finally show ?thesis .
qed

lemma pi_lower: "314159 / 100000 < pi"
proof -
  have a: "(\<Sum>i<2*2. (- 1) ^ i * (1 / real (i * 2 + 1) * (1 / 7) ^ (i * 2 + 1))) \<le> arctan (1 / 7)"
    by (rule arctan_partial_sums(1)) simp_all
  have b: "(\<Sum>i<2*1. (- 1) ^ i * (1 / real (i * 2 + 1) * (3 / 79) ^ (i * 2 + 1))) \<le> arctan (3 / 79)"
    by (rule arctan_partial_sums(1)) simp_all
  have "314159 / 100000 < 4 * (5 * (\<Sum>i<2*2. (- 1) ^ i * (1 / real (i * 2 + 1) * (1 / 7) ^ (i * 2 + 1)))
      + 2 * (\<Sum>i<2*1. (- 1) ^ i * (1 / real (i * 2 + 1) * (3 / 79) ^ (i * 2 + 1))))"
    by (simp add: lessThan_nat_numeral lessThan_Suc power_divide)
  also have "\<dots> \<le> 4 * (5 * arctan (1 / 7) + 2 * arctan (3 / 79))"
    using a b by simp
  also have "\<dots> = pi"
    using machin_Euler by simp
  finally show ?thesis .
qed

lemma exp_ge_partial_sum:
  fixes x :: real
  assumes "0 \<le> x"
  shows "(\<Sum>m<n. x ^ m / fact m) \<le> exp x"
proof -
  obtain u where "exp x = (\<Sum>m<n. x ^ m / fact m) + (exp u / fact n) * x ^ n"
    using Maclaurin_exp_le [of x n] by blast
  moreover have "0 \<le> (exp u / fact n) * x ^ n" using assms by simp
  ultimately show ?thesis by simp
qed

lemma exp_le_partial_sum:
  fixes x :: real
  assumes "0 \<le> x" "x ^ n / fact n < 1"
  shows "exp x \<le> (\<Sum>m<n. x ^ m / fact m) / (1 - x ^ n / fact n)"
proof -
  obtain u where u: "\<bar>u\<bar> \<le> \<bar>x\<bar>" "exp x = (\<Sum>m<n. x ^ m / fact m) + (exp u / fact n) * x ^ n"
    using Maclaurin_exp_le [of x n] by blast
  have "u \<le> x" using u(1) assms(1) by simp
  then have "exp u \<le> exp x" by simp
  then have "exp u * (x ^ n / fact n) \<le> exp x * (x ^ n / fact n)"
    using assms(1) by (intro mult_right_mono) simp_all
  then have "exp x \<le> (\<Sum>m<n. x ^ m / fact m) + exp x * (x ^ n / fact n)"
    using u(2) by simp
  then have "exp x * (1 - x ^ n / fact n) \<le> (\<Sum>m<n. x ^ m / fact m)"
    by (simp add: algebra_simps)
  then show ?thesis using assms(2) by (simp add: pos_le_divide_eq)
qed

lemma sqrt_branch_point_bounds:
  "84089641 / 10 ^ 8 < sqrt (1 / sqrt 2)" "sqrt (1 / sqrt 2) < 84089642 / 10 ^ 8"
proof -
  have "sqrt 2 < 1 / (84089641 / 10 ^ 8)\<^sup>2"
    by (rule real_less_lsqrt) (simp_all add: power_divide)
  then have "(84089641 / 10 ^ 8)\<^sup>2 < 1 / sqrt 2"
    by (simp add: field_simps)
  then show "84089641 / 10 ^ 8 < sqrt (1 / sqrt 2)"
    by (rule real_less_rsqrt)
  have "1 / (84089642 / 10 ^ 8)\<^sup>2 < sqrt 2"
    by (rule real_less_rsqrt) (simp add: power_divide)
  then have "1 / sqrt 2 < (84089642 / 10 ^ 8)\<^sup>2"
    by (simp add: field_simps)
  then show "sqrt (1 / sqrt 2) < 84089642 / 10 ^ 8"
    by (intro real_less_lsqrt) simp_all
qed

lemma log_arg_branch_point_bounds:
  "2 * (1 + 84089641 / 10 ^ 8) / (1 - 84089641 / 10 ^ 8) < log_arg (1 / sqrt 2)"
  "log_arg (1 / sqrt 2) < 2 * (1 + 84089642 / 10 ^ 8) / (1 - 84089642 / 10 ^ 8)"
proof -
  note r = sqrt_branch_point_bounds
  have r1: "sqrt (1 / sqrt 2) < 1" using r(2) by simp
  show "2 * (1 + 84089641 / 10 ^ 8) / (1 - 84089641 / 10 ^ 8) < log_arg (1 / sqrt 2)"
    unfolding log_arg_def using r(1) r1 by (intro frac_less) simp_all
  show "log_arg (1 / sqrt 2) < 2 * (1 + 84089642 / 10 ^ 8) / (1 - 84089642 / 10 ^ 8)"
    unfolding log_arg_def using r(2) by (intro frac_less) simp_all
qed

lemma ln_log_arg_branch_point_bounds:
  "3141598 / 10 ^ 6 < ln (log_arg (1 / sqrt 2))" "ln (log_arg (1 / sqrt 2)) < 3927 / 1250"
proof -
  note a = log_arg_branch_point_bounds
  have pos: "0 < log_arg (1 / sqrt 2)" using a(1) by simp
  have "exp (3141598 / 10 ^ 6 :: real) \<le>
      (\<Sum>m<20. (3141598 / 10 ^ 6) ^ m / fact m) / (1 - (3141598 / 10 ^ 6) ^ 20 / fact 20)"
    by (rule exp_le_partial_sum) (simp_all add: fact_numeral power_divide)
  also have "\<dots> < 2 * (1 + 84089641 / 10 ^ 8) / (1 - 84089641 / 10 ^ 8)"
    by (simp add: lessThan_nat_numeral lessThan_Suc fact_numeral power_divide)
  also have "\<dots> < log_arg (1 / sqrt 2)" by (rule a(1))
  finally have "exp (3141598 / 10 ^ 6) < exp (ln (log_arg (1 / sqrt 2)))" using pos by simp
  then show "3141598 / 10 ^ 6 < ln (log_arg (1 / sqrt 2))" by simp
  have "log_arg (1 / sqrt 2) < 2 * (1 + 84089642 / 10 ^ 8) / (1 - 84089642 / 10 ^ 8)" by (rule a(2))
  also have "\<dots> < (\<Sum>m<18. (3927 / 1250) ^ m / fact m)"
    by (simp add: lessThan_nat_numeral lessThan_Suc fact_numeral power_divide)
  also have "\<dots> \<le> exp (3927 / 1250 :: real)"
    by (rule exp_ge_partial_sum) simp
  finally have "exp (ln (log_arg (1 / sqrt 2))) < exp (3927 / 1250)" using pos by simp
  then show "ln (log_arg (1 / sqrt 2)) < 3927 / 1250" by simp
qed

lemma branch_point_gap:
  defines "L \<equiv> ln (log_arg (1 / sqrt 2))"
  shows "ratio_high (1 / sqrt 2) - ratio_low (1 / sqrt 2) = (L * L - pi * pi) / (pi * L)"
    and "3141598 / 10 ^ 6 < L" and "L < 3927 / 1250"
proof -
  show L: "3141598 / 10 ^ 6 < L" "L < 3927 / 1250"
    using ln_log_arg_branch_point_bounds by (simp_all add: L_def)
  then have "0 < L" by simp
  then show "ratio_high (1 / sqrt 2) - ratio_low (1 / sqrt 2) = (L * L - pi * pi) / (pi * L)"
    by (simp add: ratio_high_def ratio_low_def L_def [symmetric] field_simps)
qed

text \<open>
  Claim C6 says that the two branch formulas meet at the branch point \<open>k1 = 1/\<surd>2\<close>, so that
  the elliptic ratio is continuous across the switch. They do not meet: there the logarithm
  is larger than 3.141598 while \<open>\<pi>\<close> is smaller than 3.1415927, and the second formula
  exceeds the first by more than 3/1000000, ten orders of magnitude above the rounding
  of a double.
\<close>

theorem branch_formulas_differ:
  "ratio_low (1 / sqrt 2) + 3 / 1000000 < ratio_high (1 / sqrt 2)"
proof -
  define L where "L = ln (log_arg (1 / sqrt 2))"
  note g = branch_point_gap [folded L_def]
  note p = pi_lower pi_upper
  have Lpos: "0 < L" using g(2) by simp
  have "pi * pi < (31415927 / 10 ^ 7) * (31415927 / 10 ^ 7)"
    using p(2) by (intro mult_strict_mono) simp_all
  moreover have "(3141598 / 10 ^ 6) * (3141598 / 10 ^ 6) < L * L"
    using g(2) by (intro mult_strict_mono) simp_all
  ultimately have n: "(3141598 / 10 ^ 6) * (3141598 / 10 ^ 6) - (31415927 / 10 ^ 7) * (31415927 / 10 ^ 7)
      < L * L - pi * pi" by simp
  have "pi * L < (31415927 / 10 ^ 7) * (3927 / 1250)"
    using p(2) g(3) Lpos by (intro mult_strict_mono) simp_all
  then have d: "pi * L < 10" by simp
  have dpos: "0 < pi * L" using Lpos by simp
  have "3 / 1000000 < ((3141598 / 10 ^ 6) * (3141598 / 10 ^ 6) -
      (31415927 / 10 ^ 7) * (31415927 / 10 ^ 7)) / (10 :: real)" by simp
  also have "\<dots> < (L * L - pi * pi) / 10" using n by simp
  also have "\<dots> < (L * L - pi * pi) / (pi * L)"
  proof -
    have "0 < L * L - pi * pi" using n by simp
    then show ?thesis using d dpos by (intro divide_strict_left_mono) simp_all
  qed
  finally show ?thesis unfolding g(1) [symmetric] by simp
qed

text \<open>
  Claim C6, as the code has it: at \<open>k1 = 1/\<surd>2\<close> the two branch formulas agree within
  1/100000 and not exactly. \<open>K_ratio\<close> takes the first branch there (a store with \<open>w = 1\<close>
  and \<open>s = (\<surd>2 - 1)/2\<close> has exactly this modulus); the second formula is the larger one,
  by less than 1/100000, which bounds the jump of the returned value across the switch.
\<close>

theorem branch_formulas_agree:
  "K_ratio (CPW [1] PyNone (PyFloat 1) (PyFloat ((sqrt 2 - 1) / 2)) (PyFloat 3) PyNone PyNone) =
     Inr (NpFloat (Fin (ratio_low (1 / sqrt 2)))) \<and>
   ratio_low (1 / sqrt 2) < ratio_high (1 / sqrt 2) \<and>
   ratio_high (1 / sqrt 2) - ratio_low (1 / sqrt 2) < 1 / 100000"
proof -
  have e: "1 + 2 * ((sqrt 2 - 1) / 2) = sqrt 2" by (simp add: field_simps)
  have ne: "1 + 2 * ((sqrt 2 - 1) / 2) \<noteq> 0" unfolding e by simp
  have "k1 (CPW [1] PyNone (PyFloat 1) (PyFloat ((sqrt 2 - 1) / 2)) (PyFloat 3) PyNone PyNone) =
      Inr (PyFloat (1 / (1 + 2 * ((sqrt 2 - 1) / 2))))"
    by (rule k1_float [OF _ _ ne]) (simp_all add: CPW_def)
  then have k: "k1 (CPW [1] PyNone (PyFloat 1) (PyFloat ((sqrt 2 - 1) / 2)) (PyFloat 3) PyNone PyNone) =
      Inr (PyFloat (1 / sqrt 2))"
    unfolding e .
  have K: "K_ratio (CPW [1] PyNone (PyFloat 1) (PyFloat ((sqrt 2 - 1) / 2)) (PyFloat 3) PyNone PyNone) =
     Inr (NpFloat (Fin (ratio_low (1 / sqrt 2))))"
    using K_ratio_scalar [OF k, of "1 / sqrt 2"] by simp
  define L where "L = ln (log_arg (1 / sqrt 2))"
  note g = branch_point_gap [folded L_def]
  note p = pi_lower pi_upper
  have Lpos: "0 < L" using g(2) by simp
  have pL: "pi < L" using p(2) g(2) by simp
  have "pi * pi < L * L"
    using pL Lpos by (intro mult_strict_mono) simp_all
  then have num: "0 < L * L - pi * pi" by simp
  have den: "0 < pi * L" using Lpos by simp
  have "0 < (L * L - pi * pi) / (pi * L)"
    using num den by (rule divide_pos_pos)
  then have lt: "ratio_low (1 / sqrt 2) < ratio_high (1 / sqrt 2)"
    unfolding g(1) [symmetric] by simp
  have "L * L < (3927 / 1250) * (3927 / 1250)"
    using g(3) Lpos by (intro mult_strict_mono) simp_all
  moreover have "(314159 / 100000) * (314159 / 100000) < pi * pi"
    using p(1) by (intro mult_strict_mono) simp_all
  ultimately have n: "L * L - pi * pi <
      (3927 / 1250) * (3927 / 1250) - (314159 / 100000) * (314159 / 100000)"
    by simp
  have "(314159 / 100000) * (3141598 / 10 ^ 6) < pi * L"
    using p(1) g(2) by (intro mult_strict_mono) simp_all
  then have d: "9 < pi * L" by simp
  have "(L * L - pi * pi) / (pi * L) < (L * L - pi * pi) / 9"
    using d num by (intro divide_strict_left_mono) simp_all
  also have "\<dots> < ((3927 / 1250) * (3927 / 1250) - (314159 / 100000) * (314159 / 100000)) / 9"
    using n by simp
  also have "\<dots> < 1 / 100000" by simp
  finally have "ratio_high (1 / sqrt 2) - ratio_low (1 / sqrt 2) < 1 / 100000"
    unfolding g(1) [symmetric] .
  with K lt show ?thesis by simp
qed

subsection \<open>The default store\<close>

lemma inv_sqrt2_less_default: "1 / sqrt 2 < (70 / 78 :: real)"
proof -
  have "(78 / 70 :: real) < sqrt 2" by (rule real_less_rsqrt) (simp add: power_divide)
  then show ?thesis by (simp add: field_simps)
qed

lemma ratio_high_default_less: "ratio_high (70 / 78) < ratio_low 0"
proof -
  have r: "sqrt (70 / 78) < 19 / 20"
    by (rule real_less_lsqrt) (simp_all add: power_divide)
  have r0: "0 \<le> sqrt (70 / 78 :: real)" by simp
  have "log_arg (70 / 78) < 2 * (1 + 19 / 20) / (1 - 19 / 20)"
    unfolding log_arg_def using r r0 by (intro frac_less) simp_all
  also have "\<dots> < (\<Sum>m<4. 9 ^ m / fact m :: real)"
    by (simp add: lessThan_nat_numeral lessThan_Suc fact_numeral)
  also have "\<dots> \<le> exp 9" by (rule exp_ge_partial_sum) simp
  finally have a: "log_arg (70 / 78) < exp 9" .
  have p: "0 < log_arg (70 / 78)" using log_arg_ge2 [of "70 / 78"] by simp
  have "exp (ln (log_arg (70 / 78))) < exp 9" using a p by simp
  then have l9: "ln (log_arg (70 / 78)) < 9" by simp
  have p3: "3 < pi" using pi_lower by simp
  have "ln (log_arg (70 / 78)) / pi < 9 / pi"
    using l9 by (simp add: divide_strict_right_mono)
  also have "\<dots> < 3" using p3 by (simp add: field_simps)
  finally have h: "ratio_high (70 / 78) < 3" by (simp add: ratio_high_def)
  have "log_arg 0 = 2" by (simp add: log_arg_def)
  moreover have "ln (2::real) \<le> 1" using ln_le_minus_one [of "2::real"] by simp
  moreover have "0 < ln (2::real)" by simp
  ultimately have "pi \<le> ratio_low 0"
    by (simp add: ratio_low_def pos_le_divide_eq mult_left_le)
  with h p3 show ?thesis by linarith
qed

text \<open>
  Claim C1 says that for a store whose modulus \<open>w/(w+2s)\<close> lies in \<open>(1/\<surd>2, 1]\<close> the elliptic
  ratio is \<open>ln(2(1+\<surd>k1)/(1-\<surd>k1)) / \<pi>\<close> at that modulus. The default store has \<open>w = 70\<close> and
  \<open>s = 4\<close>, so \<open>w/(w+2s) = 70/78\<close> lies in that interval; but the two widths are Python
  integers, the accessor floor-divides them to 0, and \<open>K_ratio\<close> returns the first formula
  at 0, which is larger than the second formula at 70/78.
\<close>

theorem K_ratio_default_store:
  "w (CPW_default [1]) = PyInt 70 \<and> s (CPW_default [1]) = PyInt 4 \<and>
   1 / sqrt 2 < (70 / (70 + 2 * 4) :: real) \<and> (70 / (70 + 2 * 4) :: real) \<le> 1 \<and>
   k1 (CPW_default [1]) = Inr (PyInt 0) \<and>
   K_ratio (CPW_default [1]) = Inr (NpFloat (Fin (ratio_low 0))) \<and>
   ratio_high (70 / (70 + 2 * 4)) < ratio_low 0"
proof -
  have k: "k1 (CPW_default [1]) = Inr (PyInt 0)"
    by (simp add: CPW_default_def CPW_def k1_def py_defs)
  have K: "K_ratio (CPW_default [1]) = Inr (NpFloat (Fin (ratio_low 0)))"
    using K_ratio_scalar [OF k, of 0] by simp
  have e: "(70 / (70 + 2 * 4) :: real) = 70 / 78" by simp
  show ?thesis
    unfolding e using k K inv_sqrt2_less_default ratio_high_default_less
    by (simp add: CPW_default_def CPW_def)
qed

section \<open>Conductor loss\<close>

lemma ep_re_scalar:
  assumes "to_np (ep_r self) = Some (Fin e)"
  shows "\<exists>v. ep_re self = Inr v \<and> to_np v = Some (Fin ((e + 1) / 2))"
  using assms by (rule to_np_FinE) (simp_all add: ep_re_def py_defs)






section \<open>Propagation constant\<close>

lemma beta_scalar:
  assumes "to_np (ep_r self) = Some (Fin e)" "0 \<le> (e + 1) / 2 * epsilon_0 env * mu_0 env"
  shows "beta env self =
    Inr (map (\<lambda>f. (Fin 0, Fin (2 * pi * f * sqrt ((e + 1) / 2 * epsilon_0 env * mu_0 env))))
          (frequency self))"
proof -
  obtain v where v: "ep_re self = Inr v" "to_np v = Some (Fin ((e + 1) / 2))"
    using ep_re_scalar [OF assms(1)] by blast
  have "bind (lift2 py_mul (lift2 py_mul (ep_re self) (Inr (PyFloat (epsilon_0 env))))
                              (Inr (PyFloat (mu_0 env)))) np_sqrt
      = Inr (NpFloat (Fin (sqrt ((e + 1) / 2 * epsilon_0 env * mu_0 env))))"
    by (rule to_np_FinE [OF v(2)]) (use assms(2) in \<open>simp_all add: v(1) py_defs\<close>)
  then show ?thesis
    by (simp add: beta_def cmul_def promote_def fsub_def)
qed

lemma beta_array:
  assumes "ep_r self = NdArray (map Fin es)" "length es = length (frequency self)"
    "\<forall>e\<in>set es. 0 \<le> (e + 1) / 2 * epsilon_0 env * mu_0 env"
  shows "beta env self =
    Inr (map2 (\<lambda>f e. (Fin 0, Fin (2 * pi * f * sqrt ((e + 1) / 2 * epsilon_0 env * mu_0 env))))
          (frequency self) es)"
proof -
  have "map (fsqrt \<circ> (\<lambda>a. fmul a (Fin (mu_0 env))) \<circ> (\<lambda>a. fmul a (Fin (epsilon_0 env)))
             \<circ> (\<lambda>a. fdiv a (Fin 2)) \<circ> (\<lambda>a. fadd a (Fin 1)) \<circ> Fin) es
      = map (\<lambda>e. Fin (sqrt ((e + 1) / 2 * epsilon_0 env * mu_0 env))) es"
    using assms(3) by (intro map_cong) simp_all
  then have sq: "bind (lift2 py_mul (lift2 py_mul (ep_re self) (Inr (PyFloat (epsilon_0 env))))
                              (Inr (PyFloat (mu_0 env)))) np_sqrt
      = Inr (NdArray (map (\<lambda>e. Fin (sqrt ((e + 1) / 2 * epsilon_0 env * mu_0 env))) es))"
    by (simp add: ep_re_def assms(1) py_defs)
  have "map2 (\<lambda>z x. cmul z (promote x))
          (map (\<lambda>f. cmul (Fin 0, Fin (2 * pi)) (promote (Fin f))) fs)
          (map (\<lambda>e. Fin (sqrt ((e + 1) / 2 * epsilon_0 env * mu_0 env))) es)
      = map2 (\<lambda>f e. (Fin 0, Fin (2 * pi * f * sqrt ((e + 1) / 2 * epsilon_0 env * mu_0 env)))) fs es"
    for fs
    by (auto simp: zip_map_map cmul_def promote_def fsub_def)
  then show ?thesis
    by (simp add: beta_def sq broadcast_def assms(2) del: map_map)
qed

lemma add_zeros:
  assumes "\<forall>z\<in>set b. \<exists>x y. z = (Fin x, Fin y)"
  shows "complex_binop cadd b (zeros (length b)) = Inr b"
proof -
  have "map2 (\<lambda>z x. cadd z (promote x)) b (replicate (length b) (Fin 0)) = b"
    using assms
  proof (induction b)
    case Nil
    then show ?case by simp
  next
    case (Cons z b)
    then obtain x y where "z = (Fin x, Fin y)" by auto
    with Cons show ?case by (simp add: cadd_def promote_def)
  qed
  then show ?thesis by (simp add: zeros_def broadcast_def)
qed

lemma gamma_lossless:
  assumes "t self = PyNone \<or> rho self = PyNone"
  shows "gamma env self = bind (beta env self) (\<lambda>b. complex_binop cadd b (zeros (length b)))"
  using assms by (auto simp: gamma_def)

lemma beta_no_AttributeError: "beta env self \<noteq> Inl AttributeError"
  by (cases "ep_r self") (simp_all add: beta_def ep_re_def py_defs broadcast_def)

lemma gamma_lossless_no_AttributeError:
  assumes "t self = PyNone \<or> rho self = PyNone"
  shows "gamma env self \<noteq> Inl AttributeError"
proof (cases "beta env self")
  case (Inl e)
  then show ?thesis using beta_no_AttributeError [of env self]
    by (simp add: gamma_lossless [OF assms])
next
  case (Inr b)
  then show ?thesis
    by (simp add: gamma_lossless [OF assms] zeros_def broadcast_def)
qed

text \<open>
  Claim C3 says that requesting conductor loss without \<open>t\<close> and \<open>rho\<close> raises
  MissingParameter also through the propagation constant. For the default model, where both
  are unset, \<open>gamma\<close> raises nothing and returns the lossless value.
\<close>

theorem missing_parameter_counterexample:
  "t (CPW_default [1]) = PyNone \<and> rho (CPW_default [1]) = PyNone \<and>
   gamma example_collaborators (CPW_default [1]) =
     Inr [(Fin 0, Fin (2 * pi * 1 * sqrt ((3 + 1) / 2 * epsilon_0 example_collaborators *
                                          mu_0 example_collaborators)))]"
proof -
  have e: "to_np (ep_r (CPW_default [1])) = Some (Fin 3)"
    by (simp add: CPW_default_def CPW_def)
  have p: "0 \<le> (3 + 1) / 2 * epsilon_0 example_collaborators * mu_0 example_collaborators"
    by (simp add: example_collaborators_def)
  have n: "t (CPW_default [1]) = PyNone \<or> rho (CPW_default [1]) = PyNone"
    by (simp add: CPW_default_def CPW_def)
  have f: "frequency (CPW_default [1]) = [1]" by (simp add: CPW_default_def CPW_def)
  have "gamma example_collaborators (CPW_default [1]) =
     Inr [(Fin 0, Fin (2 * pi * 1 * sqrt ((3 + 1) / 2 * epsilon_0 example_collaborators *
                                          mu_0 example_collaborators)))]"
    unfolding gamma_lossless [OF n] beta_scalar [OF e p] f
    by (simp add: zeros_def broadcast_def cadd_def promote_def)
  then show ?thesis by (simp add: CPW_default_def CPW_def)
qed

text \<open>
  Claim C3, as the code has it: when \<open>t\<close> or \<open>rho\<close> is unset, \<open>alpha_conductor\<close> raises
  \<^verbatim>\<open>AttributeError\<close> (the MissingParameter error of the class) and returns nothing; \<open>gamma\<close>
  does not call it and never raises that error: it adds an array of zeros to \<open>beta\<close>.
\<close>

theorem missing_parameter:
  assumes "t self = PyNone \<or> rho self = PyNone"
  shows "alpha_conductor env self = Inl AttributeError \<and>
         gamma env self \<noteq> Inl AttributeError \<and>
         gamma env self = bind (beta env self) (\<lambda>b. complex_binop cadd b (zeros (length b)))"
  using assms gamma_lossless [OF assms] gamma_lossless_no_AttributeError [OF assms]
  by (auto simp: alpha_conductor_def)

theorem missing_parameter_witness:
  "(t (CPW_default [1]) = PyNone \<or> rho (CPW_default [1]) = PyNone) \<and>
   alpha_conductor example_collaborators (CPW_default [1]) = Inl AttributeError \<and>
   gamma example_collaborators (CPW_default [1]) \<noteq> Inl AttributeError"
proof -
  have n: "t (CPW_default [1]) = PyNone \<or> rho (CPW_default [1]) = PyNone"
    by (simp add: CPW_default_def CPW_def)
  show ?thesis using missing_parameter [OF n, of example_collaborators] n by blast
qed

text \<open>
  Claim C4. When \<open>t\<close> or \<open>rho\<close> is unset, the propagation constant at each frequency sample
  \<open>f\<close> has real part zero and imaginary part \<open>2\<pi>f\<surd>(ep_re \<epsilon>\<^sub>0 \<mu>\<^sub>0)\<close> with
  \<open>ep_re = (ep_r + 1)/2\<close>: for a scalar permittivity, and sample by sample for an array of
  permittivities aligned with the sweep. The constants are non-negative and \<open>ep_re\<close> is
  non-negative, so that the square root is taken of a non-negative number.
\<close>

theorem gamma_lossless_value:
  assumes "t self = PyNone \<or> rho self = PyNone" and "0 \<le> epsilon_0 env" and "0 \<le> mu_0 env"
  shows "(\<forall>e. to_np (ep_r self) = Some (Fin e) \<longrightarrow> - 1 \<le> e \<longrightarrow>
            gamma env self =
              Inr (map (\<lambda>f. (Fin 0, Fin (2 * pi * f * sqrt ((e + 1) / 2 * epsilon_0 env * mu_0 env))))
                    (frequency self))) \<and>
         (\<forall>es. ep_r self = NdArray (map Fin es) \<longrightarrow> length es = length (frequency self) \<longrightarrow>
            (\<forall>e\<in>set es. - 1 \<le> e) \<longrightarrow>
            gamma env self =
              Inr (map2 (\<lambda>f e. (Fin 0, Fin (2 * pi * f * sqrt ((e + 1) / 2 * epsilon_0 env * mu_0 env))))
                    (frequency self) es))"
proof (intro conjI allI impI)
  fix e assume e: "to_np (ep_r self) = Some (Fin e)" "- 1 \<le> e"
  have "0 \<le> (e + 1) / 2" using e(2) by simp
  then have p: "0 \<le> (e + 1) / 2 * epsilon_0 env * mu_0 env" using assms(2,3) by simp
  show "gamma env self =
      Inr (map (\<lambda>f. (Fin 0, Fin (2 * pi * f * sqrt ((e + 1) / 2 * epsilon_0 env * mu_0 env))))
            (frequency self))"
    unfolding gamma_lossless [OF assms(1)] beta_scalar [OF e(1) p]
    by (simp only: bind.simps) (rule add_zeros, auto)
next
  fix es assume es: "ep_r self = NdArray (map Fin es)" "length es = length (frequency self)"
    "\<forall>e\<in>set es. - 1 \<le> e"
  have p: "\<forall>e\<in>set es. 0 \<le> (e + 1) / 2 * epsilon_0 env * mu_0 env"
  proof
    fix e assume "e \<in> set es"
    then have "0 \<le> (e + 1) / 2" using es(3) by auto
    then show "0 \<le> (e + 1) / 2 * epsilon_0 env * mu_0 env" using assms(2,3) by simp
  qed
  show "gamma env self =
      Inr (map2 (\<lambda>f e. (Fin 0, Fin (2 * pi * f * sqrt ((e + 1) / 2 * epsilon_0 env * mu_0 env))))
            (frequency self) es)"
    unfolding gamma_lossless [OF assms(1)] beta_array [OF es(1,2) p]
    by (simp only: bind.simps) (rule add_zeros, auto)
qed

theorem gamma_lossless_value_witness:
  "(t (CPW_default [1, 2]) = PyNone \<or> rho (CPW_default [1, 2]) = PyNone) \<and>
   0 \<le> epsilon_0 example_collaborators \<and> 0 \<le> mu_0 example_collaborators \<and>
   to_np (ep_r (CPW_default [1, 2])) = Some (Fin 3) \<and> - 1 \<le> (3 :: real) \<and>
   gamma example_collaborators (CPW_default [1, 2]) =
     Inr (map (\<lambda>f. (Fin 0, Fin (2 * pi * f * sqrt ((3 + 1) / 2 * epsilon_0 example_collaborators *
                                                    mu_0 example_collaborators))))
           (frequency (CPW_default [1, 2]))) \<and>
   ep_r (CPW [1, 2] PyNone (PyInt 70) (PyInt 4) (NdArray [Fin 3, Fin 4]) PyNone PyNone) =
     NdArray (map Fin [3, 4]) \<and>
   gamma example_collaborators
       (CPW [1, 2] PyNone (PyInt 70) (PyInt 4) (NdArray [Fin 3, Fin 4]) PyNone PyNone) =
     Inr (map2 (\<lambda>f e. (Fin 0, Fin (2 * pi * f * sqrt ((e + 1) / 2 * epsilon_0 example_collaborators *
                                                      mu_0 example_collaborators))))
           (frequency (CPW [1, 2] PyNone (PyInt 70) (PyInt 4) (NdArray [Fin 3, Fin 4]) PyNone PyNone))
           [3, 4])"
proof -
  let ?d = "CPW_default [1, 2]"
  let ?a = "CPW [1, 2] PyNone (PyInt 70) (PyInt 4) (NdArray [Fin 3, Fin 4]) PyNone PyNone"
  have n: "t ?d = PyNone \<or> rho ?d = PyNone" by (simp add: CPW_default_def CPW_def)
  have n': "t ?a = PyNone \<or> rho ?a = PyNone" by (simp add: CPW_def)
  have c: "0 \<le> epsilon_0 example_collaborators" "0 \<le> mu_0 example_collaborators"
    by (simp_all add: example_collaborators_def)
  have e: "to_np (ep_r ?d) = Some (Fin 3)" by (simp add: CPW_default_def CPW_def)
  have e': "ep_r ?a = NdArray (map Fin [3, 4])" by (simp add: CPW_def)
  have l: "length [3, 4 :: real] = length (frequency ?a)" by (simp add: CPW_def)
  have b: "\<forall>e\<in>set [3, 4 :: real]. - 1 \<le> e" by simp
  have m: "- 1 \<le> (3 :: real)" by simp
  from gamma_lossless_value [OF n c] e m
  have 1: "gamma example_collaborators ?d =
     Inr (map (\<lambda>f. (Fin 0, Fin (2 * pi * f * sqrt ((3 + 1) / 2 * epsilon_0 example_collaborators *
                                                    mu_0 example_collaborators))))
           (frequency ?d))" by blast
  from gamma_lossless_value [OF n' c] e' l b
  have 2: "gamma example_collaborators ?a =
     Inr (map2 (\<lambda>f e. (Fin 0, Fin (2 * pi * f * sqrt ((e + 1) / 2 * epsilon_0 example_collaborators *
                                                      mu_0 example_collaborators))))
           (frequency ?a) [3, 4])" by blast
  show ?thesis using n c e m 1 e' 2 by (intro conjI)
qed

section \<open>Characteristic impedance\<close>

lemma cmul_real_one: "cmul (promote (Fin z)) (Fin 1, Fin 0) = (Fin z, Fin 0)"
  by (simp add: cmul_def promote_def fsub_def)

lemma Z0_scalar:
  assumes "to_np (ep_r self) = Some (Fin e)" "- 1 < e" "K_ratio self = Inr (NpFloat (Fin r))"
  shows "Z0 self =
    Inr (replicate (length (frequency self)) (Fin (30 * pi / sqrt ((e + 1) / 2) * r), Fin 0))"
proof -
  obtain v where v: "ep_re self = Inr v" "to_np v = Some (Fin ((e + 1) / 2))"
    using ep_re_scalar [OF assms(1)] by blast
  have pos: "0 < (e + 1) / 2" using assms(2) by simp
  then have sq: "sqrt ((e + 1) / 2) \<noteq> 0" "0 \<le> (e + 1) / 2" by simp_all
  have "lift2 py_truediv (py_mul (PyFloat 30) (PyFloat pi)) (bind (ep_re self) np_sqrt)
      = Inr (NpFloat (Fin (30 * pi / sqrt ((e + 1) / 2))))"
    by (rule to_np_FinE [OF v(2)]) (use sq in \<open>simp_all add: v(1) py_defs\<close>)
  then show ?thesis
    by (simp add: Z0_def assms(3) py_defs ones_complex_def cmul_real_one del: replicate.simps)
qed

lemma ratio_low_pos: "0 \<le> x \<Longrightarrow> x < 1 \<Longrightarrow> 0 < ratio_low x"
  using ln_log_arg_pos [of x] by (simp add: ratio_low_def)

lemma ratio_high_pos: "0 \<le> x \<Longrightarrow> x < 1 \<Longrightarrow> 0 < ratio_high x"
  using ln_log_arg_pos [of x] by (simp add: ratio_high_def)

lemma K_ratio_positive:
  assumes "k1 self = Inr k" "to_np k = Some (Fin x)" "0 \<le> x" "x < 1"
  shows "\<exists>r. K_ratio self = Inr (NpFloat (Fin r)) \<and> 0 < r"
  using K_ratio_scalar [OF assms(1,2)] assms(3,4) ratio_low_pos [OF assms(3,4)]
    ratio_high_pos [OF assms(3,4)]
  by (cases "x \<le> 1 / sqrt 2") auto

text \<open>
  Claim C7. For scalar \<open>w > 0\<close>, \<open>s > 0\<close> and \<open>ep_r \<ge> 0\<close> the characteristic impedance is the
  same value at every frequency sample, with imaginary part zero and real part strictly
  positive; a second store with the same \<open>w\<close> and \<open>s\<close> and a larger \<open>ep_r\<close> has a strictly
  smaller real part.
\<close>

theorem Z0_positive_decreasing:
  assumes "to_np (w self) = Some (Fin wv)" and "to_np (s self) = Some (Fin sv)"
    and "0 < wv" and "0 < sv"
    and "to_np (ep_r self) = Some (Fin e)" and "0 \<le> e"
    and "w self' = w self" and "s self' = s self"
    and "to_np (ep_r self') = Some (Fin e')" and "e < e'"
  shows "\<exists>z z'. Z0 self = Inr (replicate (length (frequency self)) (Fin z, Fin 0)) \<and>
                 Z0 self' = Inr (replicate (length (frequency self')) (Fin z', Fin 0)) \<and>
                 0 < z' \<and> z' < z"
proof -
  obtain k x where k: "k1 self = Inr k" "to_np k = Some (Fin x)" "0 \<le> x" "x < 1"
    using k1_positive [OF assms(1-4)] by blast
  obtain r where r: "K_ratio self = Inr (NpFloat (Fin r))" "0 < r"
    using K_ratio_positive [OF k] by blast
  have "k1 self' = k1 self" using assms(7,8) by (simp add: k1_def)
  then have r': "K_ratio self' = Inr (NpFloat (Fin r))" using r(1) by (simp add: K_ratio_def)
  have e': "- 1 < e" "- 1 < e'" using assms(6,10) by simp_all
  let ?z = "30 * pi / sqrt ((e + 1) / 2) * r"
  let ?z' = "30 * pi / sqrt ((e' + 1) / 2) * r"
  have z: "Z0 self = Inr (replicate (length (frequency self)) (Fin ?z, Fin 0))"
    by (rule Z0_scalar [OF assms(5) e'(1) r(1)])
  have z': "Z0 self' = Inr (replicate (length (frequency self')) (Fin ?z', Fin 0))"
    by (rule Z0_scalar [OF assms(9) e'(2) r'])
  have s0: "0 < sqrt ((e + 1) / 2)" using e'(1) by simp
  have ss: "sqrt ((e + 1) / 2) < sqrt ((e' + 1) / 2)" using assms(10) by simp
  have "30 * pi / sqrt ((e' + 1) / 2) < 30 * pi / sqrt ((e + 1) / 2)"
    using s0 ss by (intro divide_strict_left_mono) simp_all
  then have lt: "?z' < ?z" using r(2) by (rule mult_strict_right_mono)
  have "0 < 30 * pi / sqrt ((e' + 1) / 2)" using e'(2) by simp
  then have "0 < ?z'" using r(2) by (rule mult_pos_pos)
  with z z' lt show ?thesis by blast
qed

theorem Z0_positive_decreasing_witness:
  "to_np (w (CPW_default [1])) = Some (Fin 70) \<and> to_np (s (CPW_default [1])) = Some (Fin 4) \<and>
   to_np (ep_r (CPW_default [1])) = Some (Fin 3) \<and>
   to_np (ep_r (CPW [1] PyNone (PyInt 70) (PyInt 4) (PyInt 5) PyNone PyNone)) = Some (Fin 5) \<and>
   (\<exists>z z'. Z0 (CPW_default [1]) = Inr (replicate (length (frequency (CPW_default [1]))) (Fin z, Fin 0)) \<and>
            Z0 (CPW [1] PyNone (PyInt 70) (PyInt 4) (PyInt 5) PyNone PyNone) =
              Inr (replicate (length (frequency (CPW [1] PyNone (PyInt 70) (PyInt 4) (PyInt 5) PyNone PyNone)))
                     (Fin z', Fin 0)) \<and>
            0 < z' \<and> z' < z)"
proof -
  let ?d = "CPW_default [1]"
  let ?a = "CPW [1] PyNone (PyInt 70) (PyInt 4) (PyInt 5) PyNone PyNone"
  have h: "to_np (w ?d) = Some (Fin 70)" "to_np (s ?d) = Some (Fin 4)" "(0::real) < 70" "(0::real) < 4"
    "to_np (ep_r ?d) = Some (Fin 3)" "(0::real) \<le> 3" "w ?a = w ?d" "s ?a = s ?d"
    "to_np (ep_r ?a) = Some (Fin 5)" "(3::real) < 5"
    by (simp_all add: CPW_default_def CPW_def)
  show ?thesis using Z0_positive_decreasing [OF h] h(1,2,5,9) by (intro conjI)
qed

text \<open>
  Claim C8 says that \<open>Z0\<close> and \<open>gamma\<close> return one value per frequency sample also when
  \<open>w\<close>, \<open>s\<close>, \<open>ep_r\<close> are arrays. With \<open>w\<close> an array of two widths over a sweep of two
  samples, the chained comparison in \<open>K_ratio\<close> asks for the truth value of an array of two
  booleans: \<open>K_ratio\<close>, and with it \<open>Z0\<close>, raises \<^verbatim>\<open>ValueError\<close>. \<open>gamma\<close>, which does not
  use \<open>K_ratio\<close>, returns its two values.
\<close>

theorem Z0_array_width_fails:
  "w (CPW [1, 2] PyNone (NdArray [Fin 70, Fin 70]) (PyFloat 4) (PyFloat 3) PyNone PyNone) =
     NdArray [Fin 70, Fin 70] \<and>
   K_ratio (CPW [1, 2] PyNone (NdArray [Fin 70, Fin 70]) (PyFloat 4) (PyFloat 3) PyNone PyNone) =
     Inl ValueError \<and>
   Z0 (CPW [1, 2] PyNone (NdArray [Fin 70, Fin 70]) (PyFloat 4) (PyFloat 3) PyNone PyNone) =
     Inl ValueError \<and>
   gamma example_collaborators
     (CPW [1, 2] PyNone (NdArray [Fin 70, Fin 70]) (PyFloat 4) (PyFloat 3) PyNone PyNone) =
     Inr [(Fin 0, Fin (2 * pi * 1 * sqrt ((3 + 1) / 2 * epsilon_0 example_collaborators *
                                          mu_0 example_collaborators))),
          (Fin 0, Fin (2 * pi * 2 * sqrt ((3 + 1) / 2 * epsilon_0 example_collaborators *
                                          mu_0 example_collaborators)))]"
proof -
  let ?c = "CPW [1, 2] PyNone (NdArray [Fin 70, Fin 70]) (PyFloat 4) (PyFloat 3) PyNone PyNone"
  have z: "K_ratio ?c = Inl ValueError" "Z0 ?c = Inl ValueError"
    by (simp_all add: Z0_def K_ratio_def k1_def ep_re_def in_first_branch_def CPW_def py_defs
        broadcast_def)
  have e: "to_np (ep_r ?c) = Some (Fin 3)" by (simp add: CPW_def)
  have p: "0 \<le> (3 + 1) / 2 * epsilon_0 example_collaborators * mu_0 example_collaborators"
    by (simp add: example_collaborators_def)
  have n: "t ?c = PyNone \<or> rho ?c = PyNone" by (simp add: CPW_def)
  have f: "frequency ?c = [1, 2]" by (simp add: CPW_def)
  have g: "gamma example_collaborators ?c =
     Inr [(Fin 0, Fin (2 * pi * 1 * sqrt ((3 + 1) / 2 * epsilon_0 example_collaborators *
                                          mu_0 example_collaborators))),
          (Fin 0, Fin (2 * pi * 2 * sqrt ((3 + 1) / 2 * epsilon_0 example_collaborators *
                                          mu_0 example_collaborators)))]"
    unfolding gamma_lossless [OF n] beta_scalar [OF e p] f
    by (simp add: zeros_def broadcast_def cadd_def promote_def)
  show ?thesis using z g by (simp add: CPW_def)
qed

section \<open>The default model\<close>

text \<open>
  Claim C10 says that the default model has elliptic modulus 70/78, effective permittivity
  average 2 and zero attenuation. The defaults \<open>w = 70\<close> and \<open>s = 4\<close> are Python integers and
  \<^verbatim>\<open>old_div\<close> divides integers with floor: \<open>k1\<close> is \<open>70 // 78 = 0\<close>, and \<open>K_ratio\<close> is taken on
  the first branch at zero. The other two values are as the claim has them: \<open>ep_re\<close> is
  2.0 and \<open>gamma\<close> adds an array of zeros to \<open>beta\<close>, so that its real parts are zero.
\<close>

theorem default_model:
  "w (CPW_default fs) = PyInt 70 \<and> s (CPW_default fs) = PyInt 4 \<and> ep_r (CPW_default fs) = PyInt 3 \<and>
   t (CPW_default fs) = PyNone \<and> rho (CPW_default fs) = PyNone \<and>
   k1 (CPW_default fs) = Inr (PyInt 0) \<and>
   K_ratio (CPW_default fs) = Inr (NpFloat (Fin (pi / ln 2))) \<and>
   ep_re (CPW_default fs) = Inr (PyFloat 2) \<and>
   gamma env (CPW_default fs) =
     bind (beta env (CPW_default fs)) (\<lambda>b. complex_binop cadd b (zeros (length b))) \<and>
   gamma example_collaborators (CPW_default [1, 2]) =
     Inr [(Fin 0, Fin (2 * pi * 1 * sqrt (2 * epsilon_0 example_collaborators *
                                          mu_0 example_collaborators))),
          (Fin 0, Fin (2 * pi * 2 * sqrt (2 * epsilon_0 example_collaborators *
                                          mu_0 example_collaborators)))]"
proof -
  have k: "k1 (CPW_default fs) = Inr (PyInt 0)"
    by (simp add: CPW_default_def CPW_def k1_def py_defs)
  have "log_arg 0 = 2" by (simp add: log_arg_def)
  then have "ratio_low 0 = pi / ln 2" by (simp add: ratio_low_def)
  then have K: "K_ratio (CPW_default fs) = Inr (NpFloat (Fin (pi / ln 2)))"
    using K_ratio_scalar [OF k, of 0] by simp
  let ?c = "CPW_default [1, 2]"
  have e: "to_np (ep_r ?c) = Some (Fin 3)" by (simp add: CPW_default_def CPW_def)
  have p: "0 \<le> (3 + 1) / 2 * epsilon_0 example_collaborators * mu_0 example_collaborators"
    by (simp add: example_collaborators_def)
  have n: "t ?c = PyNone \<or> rho ?c = PyNone" by (simp add: CPW_default_def CPW_def)
  have f: "frequency ?c = [1, 2]" by (simp add: CPW_default_def CPW_def)
  have g: "gamma example_collaborators ?c =
     Inr [(Fin 0, Fin (2 * pi * 1 * sqrt (2 * epsilon_0 example_collaborators *
                                          mu_0 example_collaborators))),
          (Fin 0, Fin (2 * pi * 2 * sqrt (2 * epsilon_0 example_collaborators *
                                          mu_0 example_collaborators)))]"
    unfolding gamma_lossless [OF n] beta_scalar [OF e p] f
    by (simp add: zeros_def broadcast_def cadd_def promote_def)
  show ?thesis
    using k K g by (simp add: CPW_default_def CPW_def ep_re_def gamma_def py_defs)
qed

end
